theory Spec2Isabelle
  imports Main "HOL-Library.Word"
begin

section \<open>Values, errors and requests\<close>

text \<open>
  The dispatch engine of \<^verbatim>\<open>server/handler.go\<close> and the error type of
  \<^verbatim>\<open>appgo/error.go\<close>. Go's \<^verbatim>\<open>int64\<close> is a 64-bit word; Go's \<^verbatim>\<open>int\<close> is
  modelled as \<open>int\<close>, since the code only compares such values and counts to 99.
\<close>

type_synonym int64 = "64 word"

datatype json = JNull | JNum int | JStr string | JArr "json list" | JObj "(string \<times> json) list"

text \<open>\<^verbatim>\<open>type ApiError struct { Code ErrCode `json:"errcode"`; Msg string `json:"msg"` }\<close>\<close>

record ApiError =
  Code :: int
  Msg :: string

definition ECodeOK :: int where "ECodeOK = 20000"
definition ECodeBadRequest :: int where "ECodeBadRequest = 40000"
definition ECodeUnauthorized :: int where "ECodeUnauthorized = 40100"
definition ECodeForbidden :: int where "ECodeForbidden = 40300"
definition ECodeNotFound :: int where "ECodeNotFound = 40400"
definition ECodeInternal :: int where "ECodeInternal = 50000"
definition ECode3rdPartyAuthFailed :: int where "ECode3rdPartyAuthFailed = 50300"

definition NewApiErr :: "int \<Rightarrow> string \<Rightarrow> ApiError" where
  "NewApiErr code msg = \<lparr>Code = code, Msg = msg\<rparr>"

text \<open>
  The dynamic value of a Go \<^verbatim>\<open>error\<close>: a \<^verbatim>\<open>*appgo.ApiError\<close>, or an error of any
  other type, of which only the text is kept.
\<close>

datatype goerror = ApiErr ApiError | OtherErr string

text \<open>
  An \<^verbatim>\<open>*http.Request\<close>, as far as the dispatcher reads it: the verb, the headers
  (\<^verbatim>\<open>Header.Get\<close> gives the empty string for an absent header), the URL query, the route
  variables of the multiplexer and the body.
\<close>

record request =
  Method :: string
  Header :: "(string \<times> string) list"
  Query :: "(string \<times> string list) list"
  Vars :: "(string \<times> string) list"
  Body :: string

definition Get :: "(string \<times> string) list \<Rightarrow> string \<Rightarrow> string" where
  "Get kvs k = (case map_of kvs k of None \<Rightarrow> [] | Some v \<Rightarrow> v)"

section \<open>Reflected types and input instances\<close>

text \<open>
  A \<^verbatim>\<open>reflect.Type\<close>: the kinds \<^verbatim>\<open>newHttpFunc\<close> tells apart, a pointer, or a named struct
  with its fields in order (name, type, tag as key-value pairs).
\<close>

datatype rtype =
    Int64
  | Basic string
  | Ptr rtype
  | Struct string "(string \<times> rtype \<times> (string \<times> string) list) list"

datatype kind = KInt64 | KPtr | KStruct | KOther

fun Kind :: "rtype \<Rightarrow> kind" where
  "Kind Int64 = KInt64"
| "Kind (Basic n) = KOther"
| "Kind (Ptr t) = KPtr"
| "Kind (Struct n fs) = KStruct"

text \<open>
  Modelled from the spec: the type \<^verbatim>\<open>appgo.DummyInput\<close>, whose declaration is not part
  of the source at hand, "the sentinel no-input marker type used by handlers that need
  no parameters": a named struct without fields. Likewise the host's request type, of
  which only the name matters.
\<close>

definition DummyInput :: rtype where
  "DummyInput = Struct ''appgo.DummyInput'' []"

definition HttpRequest :: rtype where
  "HttpRequest = Struct ''http.Request'' []"

text \<open>A field value of an input instance.\<close>

datatype val =
    VInt64 int64
  | VBasic string
  | VNilPtr
  | VContent json
  | VRequest request

type_synonym inst = "(string \<times> val) list"

text \<open>
  The handler's argument: the nil \<^verbatim>\<open>*appgo.DummyInput\<close>, or a pointer to a fresh
  instance of the input type.
\<close>

datatype input = NilDummy | Inst inst

fun zero :: "rtype \<Rightarrow> val" where
  "zero Int64 = VInt64 0"
| "zero (Basic n) = VBasic []"
| "zero (Ptr t) = VNilPtr"
| "zero (Struct n fs) = VBasic []"

fun fields_of :: "rtype \<Rightarrow> (string \<times> rtype \<times> (string \<times> string) list) list" where
  "fields_of (Struct n fs) = fs"
| "fields_of t = []"

text \<open>\<^verbatim>\<open>reflect.New(t)\<close>: every declared field at its zero value.\<close>

definition New :: "rtype \<Rightarrow> inst" where
  "New t = map (\<lambda>(n, ty, tag). (n, zero ty)) (fields_of t)"

text \<open>
  \<^verbatim>\<open>s.FieldByName(n).Set(v)\<close> on a struct value: the first field of that name is
  assigned; reflect panics (\<open>None\<close>) when the struct has no such field.
\<close>

fun setField :: "string \<Rightarrow> val \<Rightarrow> inst \<Rightarrow> inst option" where
  "setField n v [] = None"
| "setField n v ((k, x) # fs) =
     (if k = n then Some ((k, v) # fs) else map_option ((#) (k, x)) (setField n v fs))"

text \<open>
  \<^verbatim>\<open>input.Elem().FieldByName(n).Set(v)\<close>: on the nil dummy pointer \<^verbatim>\<open>Elem\<close> is the
  zero \<^verbatim>\<open>reflect.Value\<close> and \<^verbatim>\<open>FieldByName\<close> panics at once; on an instance
  without the field, \<^verbatim>\<open>Set\<close> panics.
\<close>

fun setSlot :: "string \<Rightarrow> val \<Rightarrow> input \<Rightarrow> input option" where
  "setSlot n v NilDummy = None"
| "setSlot n v (Inst i) = map_option Inst (setField n v i)"

definition UserIdFieldName :: string where "UserIdFieldName = ''UserId__''"
definition AdminUserIdFieldName :: string where "AdminUserIdFieldName = ''AdminUserId__''"
definition ResIdFieldName :: string where "ResIdFieldName = ''ResourceId__''"
definition ContentFieldName :: string where "ContentFieldName = ''Content__''"
definition RequestFieldName :: string where "RequestFieldName = ''Request__''"
definition ConfVerFieldName :: string where "ConfVerFieldName = ''ConfVer__''"
definition maxVersion :: int where "maxVersion = 99"

section \<open>Collaborators outside the source at hand\<close>

text \<open>
  Constants and helpers of the packages \<^verbatim>\<open>appgo\<close>, \<^verbatim>\<open>auth\<close>, \<^verbatim>\<open>strutil\<close>,
  \<^verbatim>\<open>schema\<close> and \<^verbatim>\<open>encoding/json\<close> that the dispatcher uses and whose code is not
  part of the source at hand. They are parameters of the model.
\<close>

record env =
  AnonymousId :: int64
  RoleWebAdmin :: int
  ECodeRedirect :: int
  CustomTokenHeaderName :: string
  CustomVersionHeaderName :: string
  CustomConfVerHeaderName :: string
  TokenValidate :: "string \<Rightarrow> int64 \<times> int"
  IdFromStr :: "string \<Rightarrow> int64"
  ToInt :: "string \<Rightarrow> int"
  ToInt64 :: "string \<Rightarrow> int64"
  FromInt :: "int \<Rightarrow> string"
  schemaField :: "(string \<times> rtype \<times> (string \<times> string) list) list \<Rightarrow> string \<Rightarrow> (string \<times> rtype) option"
  schemaConvert :: "rtype \<Rightarrow> string list \<Rightarrow> string + val"
  jsonDecode :: "rtype \<Rightarrow> string \<Rightarrow> string + json"

section \<open>Bindings, handlers and effects\<close>

datatype retval = RNil | RData json | RString string | RErr goerror

record httpFunc =
  requireAuth :: bool
  requireAdmin :: bool
  hasResId :: bool
  hasContent :: bool
  hasRequest :: bool
  hasConfVer :: bool
  dummyInput :: bool
  allowAnonymous :: bool
  inputType :: rtype
  contentType :: "rtype option"
  funcValue :: "input \<Rightarrow> retval list"

text \<open>\<^verbatim>\<open>const ( _ HandlerType = iota; HandlerTypeJson; HandlerTypeHtml )\<close>\<close>

definition HandlerTypeJson :: int where "HandlerTypeJson = 1"
definition HandlerTypeHtml :: int where "HandlerTypeHtml = 2"

record handler =
  htype :: int
  path :: string
  template :: string
  funcs :: "string \<rightharpoonup> httpFunc"
  supports :: "string list"
  ts :: "string \<Rightarrow> bool"

text \<open>
  What a request does to the outside, in order: a question to the token store, the call
  of the bound function with its argument, and the response written through the
  renderer (\<^verbatim>\<open>h.renderError\<close>, \<^verbatim>\<open>h.renderData\<close>, \<^verbatim>\<open>h.renderHtml\<close>) or
  \<^verbatim>\<open>http.Redirect\<close>.
\<close>

datatype effect =
    TsValidate string
  | Call input
  | RenderError ApiError
  | RenderData retval
  | RenderHtml string retval
  | Redirect string nat

text \<open>A run of the dispatcher returns, or panics, after a trace of effects.\<close>

datatype outcome = Finished "effect list" | Panicked "effect list"

fun after :: "effect list \<Rightarrow> outcome \<Rightarrow> outcome" where
  "after es (Finished fs) = Finished (es @ fs)"
| "after es (Panicked fs) = Panicked (es @ fs)"

fun trace :: "outcome \<Rightarrow> effect list" where
  "trace (Finished es) = es"
| "trace (Panicked es) = es"

fun is_Call :: "effect \<Rightarrow> bool" where
  "is_Call (Call i) = True"
| "is_Call e = False"

fun is_response :: "effect \<Rightarrow> bool" where
  "is_response (TsValidate t) = False"
| "is_response (Call i) = False"
| "is_response e = True"

section \<open>The authenticator\<close>

text \<open>
  \<^verbatim>\<open>func (h *handler) authByHeader(r *http.Request) (appgo.Id, appgo.Role)\<close>, with the
  questions it puts to the token store.
\<close>

definition authByHeader :: "env \<Rightarrow> handler \<Rightarrow> request \<Rightarrow> (int64 \<times> int) \<times> effect list" where
  "authByHeader env h r =
     (let token = Get (Header r) (CustomTokenHeaderName env);
          (user, role) = TokenValidate env token
      in if user = 0 then ((0, 0), [])
         else if \<not> ts h token then ((0, 0), [TsValidate token])
         else ((user, role), [TsValidate token]))"


section \<open>Query decoding\<close>

text \<open>
  \<^verbatim>\<open>var decoder = schema.NewDecoder()\<close> and, in the versioned variant,
  \<^verbatim>\<open>func init() { decoder.IgnoreUnknownKeys(true) ... }\<close>.
\<close>

record Decoder =
  ignoreUnknownKeys :: bool

definition NewDecoder :: Decoder where
  "NewDecoder = \<lparr>ignoreUnknownKeys = False\<rparr>"

definition IgnoreUnknownKeys :: "bool \<Rightarrow> Decoder \<Rightarrow> Decoder" where
  "IgnoreUnknownKeys b d = d\<lparr>ignoreUnknownKeys := b\<rparr>"

text \<open>The package variable \<^verbatim>\<open>decoder\<close> once \<^verbatim>\<open>init\<close> has run.\<close>

definition decoder :: Decoder where
  "decoder = IgnoreUnknownKeys True NewDecoder"

text \<open>
  Modelled from the spec: \<^verbatim>\<open>Decoder.Decode\<close> of the query decoder, which is not part of
  the source at hand: "populate structural value from string-keyed map", "tolerant of
  unknown keys on the query path". Every key of the query is resolved against the
  declared fields (\<open>schemaField\<close>); a key that resolves to no field is an error unless
  unknown keys are ignored; the values of a key that resolves are converted
  (\<open>schemaConvert\<close>) and stored, or the conversion error is recorded. Decoding fails
  when any error was recorded.
\<close>

fun Decode ::
  "env \<Rightarrow> Decoder \<Rightarrow> (string \<times> rtype \<times> (string \<times> string) list) list \<Rightarrow>
   (string \<times> string list) list \<Rightarrow> inst \<Rightarrow> inst \<times> string list" where
  "Decode env d fs [] i = (i, [])"
| "Decode env d fs ((k, vs) # q) i =
     (case schemaField env fs k of
        None \<Rightarrow>
          (if ignoreUnknownKeys d then Decode env d fs q i
           else (let (i', errs) = Decode env d fs q i in (i', (''schema: invalid path '' @ k) # errs)))
      | Some (n, ty) \<Rightarrow>
          (case schemaConvert env ty vs of
             Inl e \<Rightarrow> (let (i', errs) = Decode env d fs q i in (i', e # errs))
           | Inr v \<Rightarrow>
               Decode env d fs q (case setField n v i of None \<Rightarrow> i | Some i' \<Rightarrow> i')))"

section \<open>The request dispatcher\<close>

definition apiVersionFromHeader :: "env \<Rightarrow> request \<Rightarrow> int" where
  "apiVersionFromHeader env r = ToInt env (Get (Header r) (CustomVersionHeaderName env))"

definition confVersionFromHeader :: "env \<Rightarrow> request \<Rightarrow> int64" where
  "confVersionFromHeader env r = ToInt64 env (Get (Header r) (CustomConfVerHeaderName env))"

text \<open>
  \<^verbatim>\<open>ServeHTTP\<close> is one function that returns early at each failure. Its blocks are
  given one by one, in the order of the source, each taking what follows it as the
  continuation \<open>k\<close>. The deferred \<^verbatim>\<open>addMetrics\<close> only touches the metrics variables
  and is left out.
\<close>

text \<open>The composed method key.\<close>

definition methodKey :: "env \<Rightarrow> request \<Rightarrow> string" where
  "methodKey env r =
     (let method = Method r;
          ver = apiVersionFromHeader env r
      in if ver > 1 \<and> ver \<le> maxVersion then method @ FromInt env ver else method)"

text \<open>
  Input construction and query decoding. The message of the BadRequest error is the text
  of the decoder's error, here that of the first key that failed.
\<close>

definition bindInput :: "env \<Rightarrow> Decoder \<Rightarrow> httpFunc \<Rightarrow> request \<Rightarrow> (input \<Rightarrow> outcome) \<Rightarrow> outcome" where
  "bindInput env d f r k =
     (if dummyInput f then k NilDummy
      else (case Decode env d (fields_of (inputType f)) (Query r) (New (inputType f)) of
              (i, []) \<Rightarrow> k (Inst i)
            | (i, e # errs) \<Rightarrow> Finished [RenderError (NewApiErr ECodeBadRequest e)]))"

text \<open>Authentication, or else the admin check.\<close>

definition bindAuth ::
  "env \<Rightarrow> handler \<Rightarrow> httpFunc \<Rightarrow> request \<Rightarrow> input \<Rightarrow> (input \<Rightarrow> outcome) \<Rightarrow> outcome" where
  "bindAuth env h f r input k =
     (if requireAuth f then
        (let ((user, role), es) = authByHeader env h r
         in after es
           (if input = NilDummy then Panicked []
            else if user = 0 then
              (if allowAnonymous f then
                 (case setSlot UserIdFieldName (VInt64 (AnonymousId env)) input of
                    None \<Rightarrow> Panicked []
                  | Some input' \<Rightarrow> k input')
               else Finished [RenderError (NewApiErr ECodeUnauthorized
                 ''either remove UserId__ in your input define, or add allowAnonymous tag'')])
            else
              (case setSlot UserIdFieldName (VInt64 user) input of
                 None \<Rightarrow> Panicked []
               | Some input' \<Rightarrow> k input')))
      else if requireAdmin f then
        (let ((user, role), es) = authByHeader env h r
         in after es
           (if input = NilDummy then Panicked []
            else if user = 0 \<or> role \<noteq> RoleWebAdmin env then
              Finished [RenderError (NewApiErr ECodeUnauthorized
                ''admin role required, you could remove AdminUserId__ in your input define'')]
            else
              (case setSlot AdminUserIdFieldName (VInt64 user) input of
                 None \<Rightarrow> Panicked []
               | Some input' \<Rightarrow> k input')))
      else k input)"

text \<open>The resource id, from the route variable \<^verbatim>\<open>id\<close>.\<close>

definition bindResId :: "env \<Rightarrow> httpFunc \<Rightarrow> request \<Rightarrow> input \<Rightarrow> (input \<Rightarrow> outcome) \<Rightarrow> outcome" where
  "bindResId env f r input k =
     (if hasResId f then
        (let id = IdFromStr env (Get (Vars r) ''id'')
         in if id = 0 then
              Finished [RenderError (NewApiErr ECodeNotFound
                ''ResourceId ('{id}' in url) required, you could remove ResourceId__ in your input define'')]
            else
              (case setSlot ResIdFieldName (VInt64 id) input of
                 None \<Rightarrow> Panicked []
               | Some input' \<Rightarrow> k input'))
      else k input)"

text \<open>
  The content body. \<^verbatim>\<open>f.contentType.Elem()\<close> panics unless the content type is a
  pointer.
\<close>

definition bindContent :: "env \<Rightarrow> httpFunc \<Rightarrow> request \<Rightarrow> input \<Rightarrow> (input \<Rightarrow> outcome) \<Rightarrow> outcome" where
  "bindContent env f r input k =
     (if hasContent f then
        (case contentType f of
           Some (Ptr t) \<Rightarrow>
             (case jsonDecode env t (Body r) of
                Inl e \<Rightarrow> Finished [RenderError (NewApiErr ECodeBadRequest e)]
              | Inr content \<Rightarrow>
                  (case setSlot ContentFieldName (VContent content) input of
                     None \<Rightarrow> Panicked []
                   | Some input' \<Rightarrow> k input'))
         | _ \<Rightarrow> Panicked [])
      else k input)"

text \<open>The raw request and the client's configuration version.\<close>

definition bindRequest :: "httpFunc \<Rightarrow> request \<Rightarrow> input \<Rightarrow> (input \<Rightarrow> outcome) \<Rightarrow> outcome" where
  "bindRequest f r input k =
     (if hasRequest f then
        (case setSlot RequestFieldName (VRequest r) input of
           None \<Rightarrow> Panicked []
         | Some input' \<Rightarrow> k input')
      else k input)"

definition bindConfVer :: "env \<Rightarrow> httpFunc \<Rightarrow> request \<Rightarrow> input \<Rightarrow> (input \<Rightarrow> outcome) \<Rightarrow> outcome" where
  "bindConfVer env f r input k =
     (if hasConfVer f then
        (let ver = confVersionFromHeader env r
         in case setSlot ConfVerFieldName (VInt64 ver) input of
              None \<Rightarrow> Panicked []
            | Some input' \<Rightarrow> k input')
      else k input)"

text \<open>
  \<^verbatim>\<open>retErr.IsNil()\<close>: reflect panics (\<open>None\<close>) on a value whose kind cannot be nil; a
  data value in the last position is taken to be a non-nil pointer, map or slice.
\<close>

fun IsNil :: "retval \<Rightarrow> bool option" where
  "IsNil RNil = Some True"
| "IsNil (RData j) = Some False"
| "IsNil (RString s) = None"
| "IsNil (RErr e) = Some False"

text \<open>What is done with the values the bound function returns.\<close>

definition renderReturns :: "env \<Rightarrow> handler \<Rightarrow> retval list \<Rightarrow> outcome" where
  "renderReturns env h returns =
     (let rl = length returns
      in if \<not> (rl = 1 \<or> rl = 2 \<or> (rl = 3 \<and> htype h = HandlerTypeHtml)) then
           Finished [RenderError (NewApiErr ECodeInternal ''Bad api-func format'')]
         else
           (let retErr = returns ! (rl - 1)
            in case IsNil retErr of
                 None \<Rightarrow> Panicked []
               | Some True \<Rightarrow>
                   (if rl = 3 then
                      (case returns ! 1 of
                         RString template' \<Rightarrow> Finished [RenderHtml template' (returns ! 0)]
                       | _ \<Rightarrow> Panicked [])
                    else if rl = 2 then Finished [RenderData (returns ! 0)]
                    else Finished [RenderData (RData (JObj []))])
               | Some False \<Rightarrow>
                   (case retErr of
                      RErr (ApiErr aerr) \<Rightarrow>
                        (if htype h = HandlerTypeHtml \<and> Code aerr = ECodeRedirect env then
                           Finished [Redirect (Msg aerr) 302]
                         else Finished [RenderError aerr])
                    | _ \<Rightarrow> Finished [])))"

definition invoke :: "env \<Rightarrow> handler \<Rightarrow> httpFunc \<Rightarrow> input \<Rightarrow> outcome" where
  "invoke env h f input = after [Call input] (renderReturns env h (funcValue f input))"

text \<open>
  The part of \<^verbatim>\<open>ServeHTTP\<close> after authentication: the remaining reserved slots, then
  the call.
\<close>

definition bindRest :: "env \<Rightarrow> handler \<Rightarrow> httpFunc \<Rightarrow> request \<Rightarrow> input \<Rightarrow> outcome" where
  "bindRest env h f r input =
     bindResId env f r input (\<lambda>input.
     bindContent env f r input (\<lambda>input.
     bindRequest f r input (\<lambda>input.
     bindConfVer env f r input (\<lambda>input.
     invoke env h f input))))"

text \<open>The part of \<^verbatim>\<open>ServeHTTP\<close> after the lookup of the binding.\<close>

definition serve :: "env \<Rightarrow> handler \<Rightarrow> httpFunc \<Rightarrow> request \<Rightarrow> outcome" where
  "serve env h f r =
     bindInput env decoder f r (\<lambda>input.
     bindAuth env h f r input (\<lambda>input.
     bindRest env h f r input))"

text \<open>\<^verbatim>\<open>func (h *handler) ServeHTTP(w http.ResponseWriter, r *http.Request)\<close>\<close>

definition ServeHTTP :: "env \<Rightarrow> handler \<Rightarrow> request \<Rightarrow> outcome" where
  "ServeHTTP env h r =
     (case funcs h (methodKey env r) of
        None \<Rightarrow> Finished [RenderError (NewApiErr ECodeNotFound ''Bad API version'')]
      | Some f \<Rightarrow> serve env h f r)"

section \<open>The earlier, unversioned dispatcher\<close>

text \<open>
  The source holds an earlier variant of the same file, without versions, document mode,
  raw request and configuration version. Its blocks for input, authentication, resource
  id and content read as above; it looks the binding up by the verb alone and does not
  test the lookup, so a verb without binding is a nil binding dereferenced at
  \<^verbatim>\<open>f.dummyInput\<close>. Its decoder is \<^verbatim>\<open>schema.NewDecoder()\<close> as it comes.
\<close>

definition renderReturns0 :: "retval list \<Rightarrow> outcome" where
  "renderReturns0 returns =
     (if length returns = 0 \<or> length returns > 2 then
        Finished [RenderError (NewApiErr ECodeInternal ''Bad api-func format'')]
      else
        (let retErr = (if length returns = 1 then returns ! 0 else returns ! 1)
         in case IsNil retErr of
              None \<Rightarrow> Panicked []
            | Some True \<Rightarrow>
                (if length returns = 2 then Finished [RenderData (returns ! 0)]
                 else Finished [RenderData (RData (JObj []))])
            | Some False \<Rightarrow>
                (case retErr of
                   RErr (ApiErr aerr) \<Rightarrow> Finished [RenderError aerr]
                 | _ \<Rightarrow> Finished [])))"

definition invoke0 :: "httpFunc \<Rightarrow> input \<Rightarrow> outcome" where
  "invoke0 f input = after [Call input] (renderReturns0 (funcValue f input))"

definition bindRest0 :: "env \<Rightarrow> httpFunc \<Rightarrow> request \<Rightarrow> input \<Rightarrow> outcome" where
  "bindRest0 env f r input =
     bindResId env f r input (\<lambda>input.
     bindContent env f r input (\<lambda>input.
     invoke0 f input))"

definition ServeHTTP0 :: "env \<Rightarrow> handler \<Rightarrow> request \<Rightarrow> outcome" where
  "ServeHTTP0 env h r =
     (case funcs h (Method r) of
        None \<Rightarrow> Panicked []
      | Some f \<Rightarrow>
          bindInput env NewDecoder f r (\<lambda>input.
          bindAuth env h f r input (\<lambda>input.
          bindRest0 env f r input)))"

section \<open>Binding the functions of a handler set\<close>

text \<open>
  A handler set, as reflection shows it: the tag of its field \<^verbatim>\<open>META\<close> if it has one,
  and its methods by name, each with its parameter types and the function itself.
\<close>

record handlerMethod =
  ins :: "rtype list"
  fn :: "input \<Rightarrow> retval list"

record funcSet =
  META :: "(string \<times> string) list option"
  Methods :: "(string \<times> handlerMethod) list"

text \<open>
  \<^verbatim>\<open>newHttpFunc\<close> returns a binding, no binding (\<^verbatim>\<open>nil, nil\<close>), or an error; reflect
  panics when \<^verbatim>\<open>FieldByName\<close> is asked of a type that is no struct.
\<close>

datatype failure = Panic string | Error string

definition newHttpFunc :: "funcSet \<Rightarrow> string \<Rightarrow> failure + httpFunc option" where
  "newHttpFunc structVal fieldName =
     (case map_of (Methods structVal) fieldName of
        None \<Rightarrow> Inr None
      | Some fieldVal \<Rightarrow>
          (if length (ins fieldVal) \<noteq> 1 then Inl (Error ''API func needs to have exact 1 parameter'')
           else case ins fieldVal ! 0 of
             Ptr elem \<Rightarrow>
               (case elem of
                  Struct name fs \<Rightarrow>
                    (let userId = map_of fs UserIdFieldName;
                         adminId = map_of fs AdminUserIdFieldName;
                         resId = map_of fs ResIdFieldName;
                         content = map_of fs ContentFieldName;
                         request = map_of fs RequestFieldName;
                         confVer = map_of fs ConfVerFieldName
                     in if (case userId of None \<Rightarrow> False | Some (ty, tag) \<Rightarrow> Kind ty \<noteq> KInt64) then
                          Inl (Error ''API func's 2nd parameter needs to be Int64'')
                        else if (case adminId of None \<Rightarrow> False | Some (ty, tag) \<Rightarrow> Kind ty \<noteq> KInt64) then
                          Inl (Error ''API func's 2nd parameter needs to be Int64'')
                        else if (case resId of None \<Rightarrow> False | Some (ty, tag) \<Rightarrow> Kind ty \<noteq> KInt64) then
                          Inl (Error ''ResId needs to be Int64'')
                        else if (case content of None \<Rightarrow> False | Some (ty, tag) \<Rightarrow> Kind ty \<noteq> KPtr) then
                          Inl (Error ''Content needs to be a pointer'')
                        else if (case request of None \<Rightarrow> False | Some (ty, tag) \<Rightarrow> Kind ty \<noteq> KPtr) then
                          Inl (Error ''Request needs to be a pointer to http.Request'')
                        else if (case request of None \<Rightarrow> False | Some (ty, tag) \<Rightarrow> ty \<noteq> Ptr HttpRequest) then
                          Inl (Error ''Request needs to be a pointer to http.Request'')
                        else if (case confVer of None \<Rightarrow> False | Some (ty, tag) \<Rightarrow> Kind ty \<noteq> KInt64) then
                          Inl (Error ''ConfVer needs to be Int64'')
                        else Inr (Some
                          \<lparr>requireAuth = (userId \<noteq> None),
                           requireAdmin = (adminId \<noteq> None),
                           hasResId = (resId \<noteq> None),
                           hasContent = (content \<noteq> None),
                           hasRequest = (request \<noteq> None),
                           hasConfVer = (confVer \<noteq> None),
                           dummyInput = (ins fieldVal ! 0 = Ptr DummyInput),
                           allowAnonymous =
                             (case userId of None \<Rightarrow> False
                              | Some (ty, tag) \<Rightarrow> Get tag ''allowAnonymous'' = ''true''),
                           inputType = elem,
                           contentType = map_option fst content,
                           funcValue = fn fieldVal\<rparr>))
                | _ \<Rightarrow> Inl (Panic ''reflect: FieldByName of non-struct type''))
           | _ \<Rightarrow> Inl (Error ''API func's parameter needs to be a pointer'')))"

text \<open>\<^verbatim>\<open>log.Panicln(err)\<close> panics with the text of the error.\<close>

fun text_of :: "failure \<Rightarrow> string" where
  "text_of (Panic p) = p"
| "text_of (Error e) = e"

text \<open>
  The inner loop of the registration,
  \<^verbatim>\<open>for i := 1; i <= maxVersion; i++ { if i > 1 { m += strutil.FromInt(i) } ... }\<close>,
  on its state: the variable \<^verbatim>\<open>m\<close>, the map \<^verbatim>\<open>funcs\<close> and the slice \<^verbatim>\<open>supports\<close>.
\<close>

function versions ::
  "env \<Rightarrow> funcSet \<Rightarrow> int \<Rightarrow> string \<times> (string \<rightharpoonup> httpFunc) \<times> string list \<Rightarrow>
   string + (string \<times> (string \<rightharpoonup> httpFunc) \<times> string list)" where
  "versions env structVal i (m, funcs', supports') =
     (if i \<le> maxVersion then
        (let m' = (if i > 1 then m @ FromInt env i else m)
         in case newHttpFunc structVal m' of
              Inl err \<Rightarrow> Inl (text_of err)
            | Inr None \<Rightarrow> versions env structVal (i + 1) (m', funcs', supports')
            | Inr (Some fun) \<Rightarrow>
                versions env structVal (i + 1) (m', funcs'(m' \<mapsto> fun), supports' @ [m']))
      else Inr (m, funcs', supports'))"
  by pat_completeness auto
termination
  by (relation "measure (\<lambda>(env, structVal, i, st). nat (maxVersion + 1 - i))") auto

text \<open>
  The outer loop, \<^verbatim>\<open>for _, m := range methods\<close>: each verb starts the inner loop with a
  fresh \<^verbatim>\<open>m\<close>.
\<close>

fun methods_loop ::
  "env \<Rightarrow> funcSet \<Rightarrow> string list \<Rightarrow> (string \<rightharpoonup> httpFunc) \<times> string list \<Rightarrow>
   string + ((string \<rightharpoonup> httpFunc) \<times> string list)" where
  "methods_loop env structVal [] (funcs', supports') = Inr (funcs', supports')"
| "methods_loop env structVal (m # ms) (funcs', supports') =
     (case versions env structVal 1 (m, funcs', supports') of
        Inl p \<Rightarrow> Inl p
      | Inr (m', funcs'', supports'') \<Rightarrow> methods_loop env structVal ms (funcs'', supports''))"

text \<open>
  \<^verbatim>\<open>func newHandler(funcSet interface{}, htype HandlerType, ts TokenStore, renderer
  *render.Render) *handler\<close>; \<open>Inl\<close> is the panic.
\<close>

definition newHandler :: "env \<Rightarrow> funcSet \<Rightarrow> int \<Rightarrow> (string \<Rightarrow> bool) \<Rightarrow> string + handler" where
  "newHandler env funcSet' htype' ts' =
     (case META funcSet' of
        None \<Rightarrow> Inl ''Bad META setting (path, template)''
      | Some tag \<Rightarrow>
          (if Get tag ''path'' = [] then Inl ''Empty API path''
           else
             (let path' = Get tag ''path'';
                  template' = (if htype' = HandlerTypeHtml then Get tag ''template'' else [])
              in if htype' = HandlerTypeJson then
                   (case methods_loop env funcSet' [''GET'', ''POST'', ''PUT'', ''DELETE''] (Map.empty, []) of
                      Inl p \<Rightarrow> Inl p
                    | Inr (funcs', supports') \<Rightarrow>
                        (if length supports' = 0 then Inl ''API supports no HTTP method''
                         else Inr \<lparr>htype = htype', path = path', template = template',
                                   funcs = funcs', supports = supports', ts = ts'\<rparr>))
                 else if htype' = HandlerTypeHtml then
                   (case newHttpFunc funcSet' ''HTML'' of
                      Inl err \<Rightarrow> Inl (text_of err)
                    | Inr None \<Rightarrow> Inl ''No HTML function for html''
                    | Inr (Some fun) \<Rightarrow>
                        Inr \<lparr>htype = htype', path = path', template = template',
                             funcs = [''GET'' \<mapsto> fun], supports = [], ts = ts'\<rparr>)
                 else Inl ''Bad handler type'')))"


section \<open>The error on the wire\<close>

text \<open>
  An \<^verbatim>\<open>http.ResponseWriter\<close>: the status once the header is written, the header
  fields, and the body as the chunks written to it, each a text or the JSON encoding of
  a value.
\<close>

datatype chunk = Text string | Encoded json

record ResponseWriter =
  status :: "nat option"
  header :: "(string \<times> string) list"
  body :: "chunk list"

definition newResponseWriter :: ResponseWriter where
  "newResponseWriter = \<lparr>status = None, header = [], body = []\<rparr>"

definition Del_header :: "string \<Rightarrow> (string \<times> string) list \<Rightarrow> (string \<times> string) list" where
  "Del_header k hs = filter (\<lambda>(k', v). k' \<noteq> k) hs"

definition Set_header :: "string \<Rightarrow> string \<Rightarrow> (string \<times> string) list \<Rightarrow> (string \<times> string) list" where
  "Set_header k v hs = (k, v) # Del_header k hs"

text \<open>\<^verbatim>\<open>WriteHeader\<close> has no effect on a header already written; \<^verbatim>\<open>Write\<close> writes the
  header with status 200 if none was written.\<close>

definition WriteHeader :: "nat \<Rightarrow> ResponseWriter \<Rightarrow> ResponseWriter" where
  "WriteHeader code w = (case status w of None \<Rightarrow> w\<lparr>status := Some code\<rparr> | Some c \<Rightarrow> w)"

definition Write :: "chunk \<Rightarrow> ResponseWriter \<Rightarrow> ResponseWriter" where
  "Write c w = (let w' = WriteHeader 200 w in w'\<lparr>body := body w' @ [c]\<rparr>)"

text \<open>
  \<^verbatim>\<open>http.Error(w, error, code)\<close> of the standard library: it sets the content type,
  writes the header with the code and prints the text and a newline.
\<close>

definition http_Error :: "ResponseWriter \<Rightarrow> string \<Rightarrow> nat \<Rightarrow> ResponseWriter" where
  "http_Error w error code =
     (let w1 = w\<lparr>header := Set_header ''X-Content-Type-Options'' ''nosniff''
                   (Set_header ''Content-Type'' ''text/plain; charset=utf-8''
                     (Del_header ''Content-Length'' (header w)))\<rparr>;
          w2 = WriteHeader code w1
      in Write (Text (error @ [CHR 0x0A])) w2)"

text \<open>
  The JSON object of an \<^verbatim>\<open>ApiError\<close>, by its field tags \<^verbatim>\<open>json:"errcode"\<close> and
  \<^verbatim>\<open>json:"msg"\<close>; \<^verbatim>\<open>Encoder.Encode\<close> writes the encoding and a newline and cannot
  fail on an integer and a string.
\<close>

definition Marshal :: "ApiError \<Rightarrow> json" where
  "Marshal e = JObj [(''errcode'', JNum (Code e)), (''msg'', JStr (Msg e))]"

definition Encode :: "json \<Rightarrow> ResponseWriter \<Rightarrow> ResponseWriter" where
  "Encode j w = Write (Text [CHR 0x0A]) (Write (Encoded j) w)"

text \<open>\<^verbatim>\<open>func (e *ApiError) HttpError(w http.ResponseWriter)\<close>\<close>

definition HttpError :: "ApiError \<Rightarrow> ResponseWriter \<Rightarrow> ResponseWriter" where
  "HttpError e w =
     (let code = 200;
          w1 = http_Error w [] code
      in Encode (Marshal e) w1)"

text \<open>The JSON documents of a body.\<close>

fun documents :: "chunk list \<Rightarrow> json list" where
  "documents [] = []"
| "documents (Text t # cs) = documents cs"
| "documents (Encoded j # cs) = j # documents cs"

section \<open>String helpers\<close>

text \<open>
  Modelled from the spec: \<^verbatim>\<open>strutil.FromInt\<close>, whose code is not part of the source
  at hand; the method key is "a verb optionally suffixed with an integer version (e.g.,
  "GET", "POST3")": the decimal digits of the number, with a minus sign if negative.
\<close>

fun digits :: "nat \<Rightarrow> string" where
  "digits n = (if n < 10 then [''0123456789'' ! n] else digits (n div 10) @ [''0123456789'' ! (n mod 10)])"

declare digits.simps [simp del]

definition strutil_FromInt :: "int \<Rightarrow> string" where
  "strutil_FromInt i = (if i < 0 then CHR ''-'' # digits (nat (- i)) else digits (nat i))"

text \<open>
  Modelled from the spec: \<^verbatim>\<open>strutil.ToInt\<close>, whose code is not part of the source at
  hand: the number a decimal string denotes, "default 0 if absent/unparseable".
\<close>

fun position :: "char \<Rightarrow> string \<Rightarrow> nat \<Rightarrow> nat option" where
  "position c [] n = None"
| "position c (d # ds) n = (if c = d then Some n else position c ds (Suc n))"

definition digit :: "char \<Rightarrow> nat option" where
  "digit c = position c ''0123456789'' 0"

fun number :: "nat \<Rightarrow> string \<Rightarrow> nat option" where
  "number acc [] = Some acc"
| "number acc (c # cs) = (case digit c of None \<Rightarrow> None | Some d \<Rightarrow> number (10 * acc + d) cs)"

definition strutil_ToInt :: "string \<Rightarrow> int" where
  "strutil_ToInt s =
     (case s of
        [] \<Rightarrow> 0
      | c # cs \<Rightarrow>
          (if c = CHR ''-'' \<and> cs \<noteq> [] then (case number 0 cs of None \<Rightarrow> 0 | Some n \<Rightarrow> - int n)
           else (case number 0 s of None \<Rightarrow> 0 | Some n \<Rightarrow> int n)))"


section \<open>Sample values\<close>

text \<open>
  An environment for the examples below. The constants and helpers that are parameters
  of the model get sample values here: three tokens decode to a user, a query key
  addresses the field of the same name, and an \<^verbatim>\<open>int64\<close> field takes the number its
  first value denotes.
\<close>

definition sampleEnv :: env where
  "sampleEnv =
     \<lparr>AnonymousId = 1,
      RoleWebAdmin = 2,
      ECodeRedirect = 30200,
      CustomTokenHeaderName = ''X-Token'',
      CustomVersionHeaderName = ''X-Version'',
      CustomConfVerHeaderName = ''X-ConfVer'',
      TokenValidate = (\<lambda>t. if t = ''alice'' then (7, 1)
                          else if t = ''root'' then (9, 2)
                          else if t = ''revoked'' then (8, 1) else (0, 0)),
      IdFromStr = (\<lambda>s. word_of_int (strutil_ToInt s)),
      ToInt = strutil_ToInt,
      ToInt64 = (\<lambda>s. word_of_int (strutil_ToInt s)),
      FromInt = strutil_FromInt,
      schemaField = (\<lambda>fs k. map_option (\<lambda>(ty, tag). (k, ty)) (map_of fs k)),
      schemaConvert = (\<lambda>ty vs. case vs of
                          [] \<Rightarrow> Inl ''schema: no value''
                        | v # vs' \<Rightarrow> if ty = Int64 then Inr (VInt64 (word_of_int (strutil_ToInt v)))
                                      else Inr (VBasic v)),
      jsonDecode = (\<lambda>ty b. if b = [] then Inl ''EOF'' else Inr (JStr b))\<rparr>"

definition sampleStore :: "string \<Rightarrow> bool" where
  "sampleStore t = (t = ''alice'' \<or> t = ''root'')"


text \<open>
  A handler set for structured data. \<^verbatim>\<open>GET\<close> takes a name from the query and the
  user id, anonymous callers allowed; \<^verbatim>\<open>POST\<close> declares both the user id and the admin
  id; \<^verbatim>\<open>PUT\<close> fails with an error that is no \<^verbatim>\<open>ApiError\<close>; \<^verbatim>\<open>DELETE\<close> needs a
  user; \<^verbatim>\<open>GET3\<close> and \<^verbatim>\<open>GET23\<close> are further versions of \<^verbatim>\<open>GET\<close>.
\<close>

definition thingsInput :: rtype where
  "thingsInput = Struct ''ThingsInput''
     [(''Name'', Basic ''string'', []),
      (UserIdFieldName, Int64, [(''allowAnonymous'', ''true'')])]"

definition adminInput :: rtype where
  "adminInput = Struct ''AdminInput''
     [(UserIdFieldName, Int64, []), (AdminUserIdFieldName, Int64, [])]"

definition userInput :: rtype where
  "userInput = Struct ''UserInput'' [(UserIdFieldName, Int64, [])]"

definition getThings :: "input \<Rightarrow> retval list" where
  "getThings i = [RData (JStr ''things''), RNil]"

definition postThings :: "input \<Rightarrow> retval list" where
  "postThings i = [RNil]"

definition putThings :: "input \<Rightarrow> retval list" where
  "putThings i = [RData JNull, RErr (OtherErr ''db: connection refused'')]"

definition sampleSet :: funcSet where
  "sampleSet =
     \<lparr>META = Some [(''path'', ''/things'')],
      Methods =
        [(''DELETE'', \<lparr>ins = [Ptr userInput], fn = postThings\<rparr>),
         (''GET'', \<lparr>ins = [Ptr thingsInput], fn = getThings\<rparr>),
         (''GET23'', \<lparr>ins = [Ptr DummyInput], fn = postThings\<rparr>),
         (''GET3'', \<lparr>ins = [Ptr DummyInput], fn = getThings\<rparr>),
         (''POST'', \<lparr>ins = [Ptr adminInput], fn = postThings\<rparr>),
         (''PUT'', \<lparr>ins = [Ptr DummyInput], fn = putThings\<rparr>)]\<rparr>"

definition getBinding :: httpFunc where
  "getBinding =
     \<lparr>requireAuth = True, requireAdmin = False, hasResId = False, hasContent = False,
      hasRequest = False, hasConfVer = False, dummyInput = False, allowAnonymous = True,
      inputType = thingsInput, contentType = None, funcValue = getThings\<rparr>"

definition postBinding :: httpFunc where
  "postBinding =
     \<lparr>requireAuth = True, requireAdmin = True, hasResId = False, hasContent = False,
      hasRequest = False, hasConfVer = False, dummyInput = False, allowAnonymous = False,
      inputType = adminInput, contentType = None, funcValue = postThings\<rparr>"

definition putBinding :: httpFunc where
  "putBinding =
     \<lparr>requireAuth = False, requireAdmin = False, hasResId = False, hasContent = False,
      hasRequest = False, hasConfVer = False, dummyInput = True, allowAnonymous = False,
      inputType = DummyInput, contentType = None, funcValue = putThings\<rparr>"

definition deleteBinding :: httpFunc where
  "deleteBinding =
     \<lparr>requireAuth = True, requireAdmin = False, hasResId = False, hasContent = False,
      hasRequest = False, hasConfVer = False, dummyInput = False, allowAnonymous = False,
      inputType = userInput, contentType = None, funcValue = postThings\<rparr>"

definition sampleHandler :: handler where
  "sampleHandler =
     \<lparr>htype = HandlerTypeJson, path = ''/things'', template = [],
      funcs = [''GET'' \<mapsto> getBinding, ''POST'' \<mapsto> postBinding, ''PUT'' \<mapsto> putBinding,
               ''DELETE'' \<mapsto> deleteBinding],
      supports = [''GET'', ''POST'', ''PUT'', ''DELETE''], ts = sampleStore\<rparr>"

text \<open>A document handler whose function asks for a redirect to the login page.\<close>

definition htmlThings :: "input \<Rightarrow> retval list" where
  "htmlThings i = [RData JNull, RString ''tmplA'', RErr (ApiErr (NewApiErr 30200 ''/login''))]"

definition htmlBinding :: httpFunc where
  "htmlBinding =
     \<lparr>requireAuth = False, requireAdmin = False, hasResId = False, hasContent = False,
      hasRequest = False, hasConfVer = False, dummyInput = True, allowAnonymous = False,
      inputType = DummyInput, contentType = None, funcValue = htmlThings\<rparr>"

definition htmlHandler :: handler where
  "htmlHandler =
     \<lparr>htype = HandlerTypeHtml, path = ''/page'', template = ''tmplA'',
      funcs = [''GET'' \<mapsto> htmlBinding], supports = [], ts = sampleStore\<rparr>"

text \<open>A request with a verb, headers and a query, and nothing else.\<close>

definition req :: "string \<Rightarrow> (string \<times> string) list \<Rightarrow> (string \<times> string list) list \<Rightarrow> request" where
  "req m hs q = \<lparr>Method = m, Header = hs, Query = q, Vars = [], Body = []\<rparr>"

text \<open>The reserved slot of an input, as the handler reads it.\<close>

fun slot :: "string \<Rightarrow> input \<Rightarrow> val option" where
  "slot n NilDummy = None"
| "slot n (Inst i) = map_of i n"


section \<open>Notions used in the statements\<close>

text \<open>
  The value of the variable \<^verbatim>\<open>m\<close> of the registration loop in the iteration for
  version \<open>v\<close>, when the loop started from the verb \<open>m\<close>: every version from 2 on has
  been appended.
\<close>

definition cumulativeKey :: "env \<Rightarrow> string \<Rightarrow> int \<Rightarrow> string" where
  "cumulativeKey env m v = m @ concat (map (FromInt env) [2..v])"

text \<open>The handler set has a method of that name.\<close>

definition resolves :: "funcSet \<Rightarrow> string \<Rightarrow> bool" where
  "resolves structVal k = (map_of (Methods structVal) k \<noteq> None)"

text \<open>Every binding of the map was made by \<^verbatim>\<open>newHttpFunc\<close> from the handler set.\<close>

definition madeFrom :: "funcSet \<Rightarrow> (string \<rightharpoonup> httpFunc) \<Rightarrow> bool" where
  "madeFrom structVal fm = (\<forall>k f. fm k = Some f \<longrightarrow> (\<exists>n. newHttpFunc structVal n = Inr (Some f)))"

declare versions.simps [simp del]

section \<open>Facts used throughout\<close>

lemmas sample_defs = sampleEnv_def sampleStore_def sampleHandler_def sampleSet_def getBinding_def
  postBinding_def putBinding_def deleteBinding_def htmlBinding_def htmlHandler_def req_def
  thingsInput_def adminInput_def userInput_def getThings_def postThings_def putThings_def htmlThings_def

lemmas stage_defs = ServeHTTP_def serve_def bindInput_def bindAuth_def bindRest_def bindResId_def
  bindContent_def bindRequest_def bindConfVer_def invoke_def renderReturns_def methodKey_def
  apiVersionFromHeader_def confVersionFromHeader_def authByHeader_def

lemmas slot_names = UserIdFieldName_def AdminUserIdFieldName_def ResIdFieldName_def
  ContentFieldName_def RequestFieldName_def ConfVerFieldName_def

lemmas const_defs = slot_names maxVersion_def ECodeNotFound_def ECodeInternal_def ECodeBadRequest_def
  ECodeUnauthorized_def NewApiErr_def HandlerTypeJson_def HandlerTypeHtml_def DummyInput_def Get_def
  decoder_def NewDecoder_def IgnoreUnknownKeys_def strutil_ToInt_def strutil_FromInt_def New_def digit_def

lemma after_Nil: "after [] out = out"
  by (cases out) simp_all

lemma setField_Some:
  "n \<in> fst ` set i \<Longrightarrow> \<exists>i'. setField n v i = Some i' \<and> map_of i' n = Some v \<and> map fst i' = map fst i"
proof (induction i)
  case Nil
  then show ?case by simp
next
  case (Cons kx i)
  obtain k x where kx: "kx = (k, x)" by (cases kx)
  show ?case
  proof (cases "k = n")
    case True
    then show ?thesis using kx by simp
  next
    case False
    with Cons.prems kx have "n \<in> fst ` set i" by auto
    from Cons.IH [OF this] obtain i' where
      "setField n v i = Some i'" "map_of i' n = Some v" "map fst i' = map fst i" by blast
    then show ?thesis using False kx by simp
  qed
qed

lemma setField_names: "setField n v i = Some i' \<Longrightarrow> map fst i' = map fst i"
  by (induction i arbitrary: i') (auto split: if_splits)

lemma setField_other: "setField n v i = Some i' \<Longrightarrow> m \<noteq> n \<Longrightarrow> map_of i' m = map_of i m"
  by (induction i arbitrary: i') (auto split: if_splits)

lemma Decode_names: "map fst (fst (Decode env d fs q i)) = map fst i"
proof (induction q arbitrary: i)
  case Nil
  show ?case by simp
next
  case (Cons kv q)
  obtain k vs where kv: "kv = (k, vs)" by (cases kv)
  show ?case
  proof (cases "schemaField env fs k")
    case None
    then show ?thesis using Cons.IH [of i] kv by (simp add: split_beta)
  next
    case (Some nt)
    obtain n ty where nt: "nt = (n, ty)" by (cases nt)
    show ?thesis
    proof (cases "schemaConvert env ty vs")
      case (Inl e)
      then show ?thesis using Cons.IH [of i] kv Some nt by (simp add: split_beta)
    next
      case (Inr v)
      show ?thesis
      proof (cases "setField n v i")
        case None
        then show ?thesis using Cons.IH [of i] kv Some nt Inr by simp
      next
        case (Some i')
        then show ?thesis using Cons.IH [of i'] kv \<open>schemaField env fs k = Some nt\<close> nt Inr
          by (simp add: setField_names)
      qed
    qed
  qed
qed

lemma New_names: "map fst (New t) = map fst (fields_of t)"
  by (simp add: New_def split_beta)

lemma newHttpFunc_userId:
  assumes "newHttpFunc structVal name = Inr (Some f)" and "requireAuth f"
  shows "\<not> dummyInput f \<and> UserIdFieldName \<in> fst ` set (fields_of (inputType f))"
proof -
  from assms(1) obtain fieldVal where fv: "map_of (Methods structVal) name = Some fieldVal"
    by (auto simp: newHttpFunc_def split: option.splits)
  from assms(1) fv obtain elem where el: "ins fieldVal ! 0 = Ptr elem"
    by (auto simp: newHttpFunc_def split: if_splits rtype.splits)
  from assms(1) fv el obtain nm fs where st: "elem = Struct nm fs"
    by (auto simp: newHttpFunc_def split: if_splits rtype.splits)
  from assms(1) fv el st have f: "requireAuth f = (map_of fs UserIdFieldName \<noteq> None)"
    "dummyInput f = (Ptr elem = Ptr DummyInput)" "inputType f = elem"
    by (auto simp: newHttpFunc_def Let_def split: if_splits)
  from f(1) assms(2) have "UserIdFieldName \<in> fst ` set fs"
    by (auto simp: map_of_eq_None_iff)
  moreover from this have "fs \<noteq> []" by auto
  ultimately show ?thesis
    using f st by (auto simp: DummyInput_def)
qed

lemma Decode_filter:
  "ignoreUnknownKeys d \<Longrightarrow>
   Decode env d fs q i = Decode env d fs (filter (\<lambda>(k, vs). schemaField env fs k \<noteq> None) q) i"
proof (induction q arbitrary: i)
  case Nil
  show ?case by simp
next
  case (Cons kv q)
  obtain k vs where kv: "kv = (k, vs)" by (cases kv)
  show ?case
  proof (cases "schemaField env fs k")
    case None
    then show ?thesis using Cons kv by simp
  next
    case (Some nt)
    obtain n ty where nt: "nt = (n, ty)" by (cases nt)
    show ?thesis
      using Cons.prems Some nt kv Cons.IH
      by (cases "schemaConvert env ty vs") simp_all
  qed
qed

lemma Decode_unknown:
  "ignoreUnknownKeys d \<Longrightarrow> \<forall>(k, vs) \<in> set q. schemaField env fs k = None \<Longrightarrow>
   Decode env d fs q i = (i, [])"
  by (induction q arbitrary: i) auto

lemma decoder_ignores: "ignoreUnknownKeys decoder"
  by (simp add: decoder_def IgnoreUnknownKeys_def NewDecoder_def)

section \<open>The authenticator\<close>

text \<open>
  C8. \<^verbatim>\<open>authByHeader\<close> returns \<open>(0, 0)\<close> and puts no question to the token store when
  the token decodes to user 0. When it decodes to another user, the store is asked once
  about the token: the answer false gives \<open>(0, 0)\<close>, the answer true the decoded user
  and role.
\<close>

theorem authByHeader_store:
  assumes "token = Get (Header r) (CustomTokenHeaderName env)"
      and "TokenValidate env token = (user, role)"
  shows "authByHeader env h r =
           (if user = 0 then ((0, 0), [])
            else if ts h token then ((user, role), [TsValidate token])
            else ((0, 0), [TsValidate token]))"
  using assms by (simp add: authByHeader_def Let_def)

theorem authByHeader_store_witness:
  "authByHeader sampleEnv sampleHandler (req ''GET'' [] []) = ((0, 0), [])
   \<and> authByHeader sampleEnv sampleHandler (req ''GET'' [(''X-Token'', ''revoked'')] []) = ((0, 0), [TsValidate ''revoked''])
   \<and> authByHeader sampleEnv sampleHandler (req ''GET'' [(''X-Token'', ''alice'')] []) = ((7, 1), [TsValidate ''alice''])"
  using authByHeader_store [of "[]" "req ''GET'' [] []" sampleEnv 0 0 sampleHandler]
    authByHeader_store [of "''revoked''" "req ''GET'' [(''X-Token'', ''revoked'')] []" sampleEnv 8 1 sampleHandler]
    authByHeader_store [of "''alice''" "req ''GET'' [(''X-Token'', ''alice'')] []" sampleEnv 7 1 sampleHandler]
  by (simp add: sample_defs Get_def)

section \<open>Lookup of the binding\<close>

text \<open>
  C3. When no binding is registered under the composed method key, the dispatcher
  answers with the NotFound error "Bad API version" and nothing else happens: the trace
  holds no call of a handler function.
\<close>

theorem ServeHTTP_no_binding:
  assumes "funcs h (methodKey env r) = None"
  shows "ServeHTTP env h r = Finished [RenderError (NewApiErr ECodeNotFound ''Bad API version'')]
         \<and> \<not> list_ex is_Call (trace (ServeHTTP env h r))"
  using assms by (simp add: ServeHTTP_def)

theorem ServeHTTP_no_binding_witness:
  "ServeHTTP sampleEnv sampleHandler (req ''GET'' [(''X-Version'', ''5'')] []) =
     Finished [RenderError (NewApiErr ECodeNotFound ''Bad API version'')]"
  using ServeHTTP_no_binding [of sampleHandler sampleEnv "req ''GET'' [(''X-Version'', ''5'')] []"]
  by (simp add: sample_defs methodKey_def apiVersionFromHeader_def const_defs digits.simps)

text \<open>
  The earlier variant has no such test: a verb without binding panics.
\<close>

lemma ServeHTTP0_no_binding:
  "funcs h (Method r) = None \<Longrightarrow> ServeHTTP0 env h r = Panicked []"
  by (simp add: ServeHTTP0_def)

text \<open>
  C10. When the version read from the header is at most 1 (as for an absent header, a
  text that is no number, 0 or 1) or above 99, the composed method key is the bare verb,
  and the request is served by the binding registered under the verb.
\<close>

theorem methodKey_out_of_range:
  assumes "v = apiVersionFromHeader env r"
      and "v \<le> 1 \<or> 99 < v"
  shows "methodKey env r = Method r
         \<and> ServeHTTP env h r =
             (case funcs h (Method r) of
                None \<Rightarrow> Finished [RenderError (NewApiErr ECodeNotFound ''Bad API version'')]
              | Some f \<Rightarrow> serve env h f r)"
proof -
  have key: "methodKey env r = Method r"
    using assms by (auto simp: methodKey_def Let_def maxVersion_def)
  show ?thesis
    by (simp add: key ServeHTTP_def)
qed

theorem methodKey_out_of_range_witness:
  "methodKey sampleEnv (req ''GET'' [] []) = ''GET''
   \<and> methodKey sampleEnv (req ''GET'' [(''X-Version'', ''v2'')] []) = ''GET''
   \<and> methodKey sampleEnv (req ''GET'' [(''X-Version'', ''0'')] []) = ''GET''
   \<and> methodKey sampleEnv (req ''GET'' [(''X-Version'', ''1'')] []) = ''GET''
   \<and> methodKey sampleEnv (req ''GET'' [(''X-Version'', ''100'')] []) = ''GET''"
  using methodKey_out_of_range [of 0 sampleEnv "req ''GET'' [] []" sampleHandler]
    methodKey_out_of_range [of 0 sampleEnv "req ''GET'' [(''X-Version'', ''v2'')] []" sampleHandler]
    methodKey_out_of_range [of 0 sampleEnv "req ''GET'' [(''X-Version'', ''0'')] []" sampleHandler]
    methodKey_out_of_range [of 1 sampleEnv "req ''GET'' [(''X-Version'', ''1'')] []" sampleHandler]
    methodKey_out_of_range [of 100 sampleEnv "req ''GET'' [(''X-Version'', ''100'')] []" sampleHandler]
  by (simp add: sample_defs apiVersionFromHeader_def const_defs)

text \<open>
  The modelled \<^verbatim>\<open>strutil.ToInt\<close> gives 0 for the empty string, which is what
  \<^verbatim>\<open>Header.Get\<close> gives for an absent header, and for a text with a character that is
  neither a digit nor a minus sign.
\<close>

lemma strutil_ToInt_absent: "strutil_ToInt [] = 0"
  by (simp add: strutil_ToInt_def)

lemma number_None: "digit c = None \<Longrightarrow> c \<in> set s \<Longrightarrow> number acc s = None"
  by (induction s arbitrary: acc) (auto split: option.splits)

lemma strutil_ToInt_unparseable:
  assumes "digit c = None" and "c \<in> set s" and "c \<noteq> CHR ''-''"
  shows "strutil_ToInt s = 0"
proof (cases s)
  case Nil
  then show ?thesis by (simp add: strutil_ToInt_def)
next
  case (Cons d ds)
  have whole: "number 0 s = None"
    by (rule number_None [OF assms(1,2)])
  show ?thesis
  proof (cases "d = CHR ''-'' \<and> ds \<noteq> []")
    case True
    with assms Cons have "c \<in> set ds" by auto
    from number_None [OF assms(1) this] show ?thesis
      using True Cons by (simp add: strutil_ToInt_def)
  next
    case False
    then show ?thesis using whole Cons by (auto simp: strutil_ToInt_def)
  qed
qed

section \<open>Query decoding\<close>

text \<open>
  C4. With the decoder as \<^verbatim>\<open>init\<close> leaves it, the query keys that address no
  declared field do not matter: decoding the query gives what decoding it without those
  keys gives, to the rest of the pipeline as well; and when every key of the query is
  unknown, decoding succeeds and hands the fresh instance on.
\<close>

theorem bindInput_unknown_keys:
  "bindInput env decoder f r k =
     bindInput env decoder f
       (r\<lparr>Query := filter (\<lambda>(key, vs). schemaField env (fields_of (inputType f)) key \<noteq> None) (Query r)\<rparr>) k
   \<and> (\<not> dummyInput f \<and> (\<forall>(key, vs) \<in> set (Query r). schemaField env (fields_of (inputType f)) key = None)
        \<longrightarrow> bindInput env decoder f r k = k (Inst (New (inputType f))))"
proof -
  have a: "Decode env decoder (fields_of (inputType f)) (Query r) (New (inputType f)) =
      Decode env decoder (fields_of (inputType f))
        (filter (\<lambda>(key, vs). schemaField env (fields_of (inputType f)) key \<noteq> None) (Query r))
        (New (inputType f))"
    by (rule Decode_filter [OF decoder_ignores])
  have b: "\<forall>(key, vs) \<in> set (Query r). schemaField env (fields_of (inputType f)) key = None \<Longrightarrow>
      Decode env decoder (fields_of (inputType f)) (Query r) (New (inputType f)) = (New (inputType f), [])"
    by (rule Decode_unknown [OF decoder_ignores])
  have c: "bindInput env decoder f r k =
     bindInput env decoder f
       (r\<lparr>Query := filter (\<lambda>(key, vs). schemaField env (fields_of (inputType f)) key \<noteq> None) (Query r)\<rparr>) k"
    unfolding bindInput_def by (subst a) simp
  have d: "\<not> dummyInput f \<and> (\<forall>(key, vs) \<in> set (Query r). schemaField env (fields_of (inputType f)) key = None)
        \<longrightarrow> bindInput env decoder f r k = k (Inst (New (inputType f)))"
    using b by (simp add: bindInput_def)
  from c d show ?thesis by (rule conjI)
qed

theorem bindInput_unknown_keys_witness:
  "bindInput sampleEnv decoder getBinding (req ''GET'' [] [(''page'', [''2'']), (''sort'', [''asc''])])
     (\<lambda>input. Finished [Call input]) =
   Finished [Call (Inst [(''Name'', VBasic []), (''UserId__'', VInt64 0)])]"
proof -
  have unknown: "\<not> dummyInput getBinding \<and>
      (\<forall>(key, vs) \<in> set (Query (req ''GET'' [] [(''page'', [''2'']), (''sort'', [''asc''])])).
         schemaField sampleEnv (fields_of (inputType getBinding)) key = None)"
    by (simp add: getBinding_def thingsInput_def req_def sampleEnv_def const_defs)
  have "bindInput sampleEnv decoder getBinding (req ''GET'' [] [(''page'', [''2'']), (''sort'', [''asc''])])
      (\<lambda>input. Finished [Call input]) = Finished [Call (Inst (New (inputType getBinding)))]"
    using bindInput_unknown_keys [of sampleEnv getBinding
        "req ''GET'' [] [(''page'', [''2'']), (''sort'', [''asc''])]" "\<lambda>input. Finished [Call input]"]
      unknown by blast
  then show ?thesis
    by (simp add: getBinding_def thingsInput_def const_defs)
qed

text \<open>
  The decoder of the earlier variant, on which \<^verbatim>\<open>IgnoreUnknownKeys\<close> is not called,
  fails on an unknown key.
\<close>

lemma Decode_NewDecoder_unknown:
  "schemaField env fs k = None \<Longrightarrow> snd (Decode env NewDecoder fs ((k, vs) # q) i) \<noteq> []"
  by (simp add: NewDecoder_def split_beta)

section \<open>Authentication\<close>

text \<open>
  C5. For a binding made by \<^verbatim>\<open>newHttpFunc\<close> that requires authentication, once the query is
  decoded: with user 0 and no \<^verbatim>\<open>allowAnonymous\<close> the dispatcher answers Unauthorized
  and the handler function is not called; with user 0 and \<^verbatim>\<open>allowAnonymous\<close> the
  rest of the pipeline runs on the decoded input with the anonymous id in its user-id
  slot; with another user it runs on the decoded input with that user in the slot.
\<close>

theorem ServeHTTP_requireAuth:
  assumes "funcs h (methodKey env r) = Some f"
      and "newHttpFunc structVal name = Inr (Some f)"
      and "requireAuth f"
      and "Decode env decoder (fields_of (inputType f)) (Query r) (New (inputType f)) = (i, [])"
      and "authByHeader env h r = ((user, role), es)"
  shows "(user = 0 \<and> \<not> allowAnonymous f \<longrightarrow>
            ServeHTTP env h r = Finished (es @ [RenderError (NewApiErr ECodeUnauthorized
              ''either remove UserId__ in your input define, or add allowAnonymous tag'')])
            \<and> \<not> list_ex is_Call (trace (ServeHTTP env h r)))
       \<and> (user = 0 \<and> allowAnonymous f \<longrightarrow>
            (\<exists>i'. setField UserIdFieldName (VInt64 (AnonymousId env)) i = Some i'
               \<and> slot UserIdFieldName (Inst i') = Some (VInt64 (AnonymousId env))
               \<and> ServeHTTP env h r = after es (bindRest env h f r (Inst i'))))
       \<and> (user \<noteq> 0 \<longrightarrow>
            (\<exists>i'. setField UserIdFieldName (VInt64 user) i = Some i'
               \<and> slot UserIdFieldName (Inst i') = Some (VInt64 user)
               \<and> ServeHTTP env h r = after es (bindRest env h f r (Inst i'))))"
proof -
  from newHttpFunc_userId [OF assms(2,3)]
  have nd: "\<not> dummyInput f" and uid: "UserIdFieldName \<in> fst ` set (fields_of (inputType f))"
    by simp_all
  have "map fst i = map fst (New (inputType f))"
    using Decode_names [of env decoder "fields_of (inputType f)" "Query r" "New (inputType f)"] assms(4)
    by simp
  then have "fst ` set i = fst ` set (fields_of (inputType f))"
    by (metis New_names set_map)
  with uid have ui: "UserIdFieldName \<in> fst ` set i" by simp
  have calls: "\<not> list_ex is_Call es"
    using assms(5) by (auto simp: authByHeader_def Let_def split: prod.splits if_splits)
  have S: "ServeHTTP env h r = bindAuth env h f r (Inst i) (bindRest env h f r)"
    using assms(1,4) nd by (simp add: ServeHTTP_def serve_def bindInput_def)
  have A: "user = 0 \<and> \<not> allowAnonymous f \<longrightarrow>
            ServeHTTP env h r = Finished (es @ [RenderError (NewApiErr ECodeUnauthorized
              ''either remove UserId__ in your input define, or add allowAnonymous tag'')])
            \<and> \<not> list_ex is_Call (trace (ServeHTTP env h r))"
    using calls by (simp add: S bindAuth_def assms(3,5))
  have B: "\<exists>i'. setField UserIdFieldName (VInt64 v) i = Some i'
               \<and> slot UserIdFieldName (Inst i') = Some (VInt64 v)
               \<and> (case setSlot UserIdFieldName (VInt64 v) (Inst i) of None \<Rightarrow> Panicked []
                    | Some input' \<Rightarrow> bindRest env h f r input') = bindRest env h f r (Inst i')" for v
    using setField_Some [OF ui, of "VInt64 v"] by auto
  have C: "user = 0 \<and> allowAnonymous f \<longrightarrow>
            (\<exists>i'. setField UserIdFieldName (VInt64 (AnonymousId env)) i = Some i'
               \<and> slot UserIdFieldName (Inst i') = Some (VInt64 (AnonymousId env))
               \<and> ServeHTTP env h r = after es (bindRest env h f r (Inst i')))"
    using B [of "AnonymousId env"] by (auto simp: S bindAuth_def assms(3,5))
  have D: "user \<noteq> 0 \<longrightarrow>
            (\<exists>i'. setField UserIdFieldName (VInt64 user) i = Some i'
               \<and> slot UserIdFieldName (Inst i') = Some (VInt64 user)
               \<and> ServeHTTP env h r = after es (bindRest env h f r (Inst i')))"
    using B [of user] by (auto simp: S bindAuth_def assms(3,5))
  from A C D show ?thesis by blast
qed

theorem ServeHTTP_requireAuth_witness:
  "ServeHTTP sampleEnv sampleHandler (req ''DELETE'' [] []) =
     Finished [RenderError (NewApiErr ECodeUnauthorized
       ''either remove UserId__ in your input define, or add allowAnonymous tag'')]
   \<and> ServeHTTP sampleEnv sampleHandler (req ''GET'' [] []) =
       bindRest sampleEnv sampleHandler getBinding (req ''GET'' [] [])
         (Inst [(''Name'', VBasic []), (''UserId__'', VInt64 1)])
   \<and> ServeHTTP sampleEnv sampleHandler (req ''GET'' [(''X-Token'', ''alice'')] []) =
       after [TsValidate ''alice'']
         (bindRest sampleEnv sampleHandler getBinding (req ''GET'' [(''X-Token'', ''alice'')] [])
           (Inst [(''Name'', VBasic []), (''UserId__'', VInt64 7)]))"
proof -
  have k1: "funcs sampleHandler (methodKey sampleEnv (req ''DELETE'' [] [])) = Some deleteBinding"
    by (simp add: sampleHandler_def sampleEnv_def req_def methodKey_def apiVersionFromHeader_def const_defs)
  have k2: "funcs sampleHandler (methodKey sampleEnv (req ''GET'' hs [])) = Some getBinding"
    if "map_of hs ''X-Version'' = None" for hs
    using that by (simp add: sampleHandler_def sampleEnv_def req_def methodKey_def apiVersionFromHeader_def const_defs)
  have b1: "newHttpFunc sampleSet ''DELETE'' = Inr (Some deleteBinding)"
    by (simp add: newHttpFunc_def sampleSet_def deleteBinding_def userInput_def const_defs)
  have b2: "newHttpFunc sampleSet ''GET'' = Inr (Some getBinding)"
    by (simp add: newHttpFunc_def sampleSet_def getBinding_def thingsInput_def const_defs)
  have d1: "Decode sampleEnv decoder (fields_of (inputType deleteBinding)) (Query (req ''DELETE'' [] []))
      (New (inputType deleteBinding)) = ([(''UserId__'', VInt64 0)], [])"
    by (simp add: deleteBinding_def userInput_def req_def const_defs)
  have d2: "Decode sampleEnv decoder (fields_of (inputType getBinding)) (Query (req ''GET'' hs []))
      (New (inputType getBinding)) = ([(''Name'', VBasic []), (''UserId__'', VInt64 0)], [])" for hs
    by (simp add: getBinding_def thingsInput_def req_def const_defs)
  have a1: "authByHeader sampleEnv sampleHandler (req ''DELETE'' [] []) = ((0, 0), [])"
    by (simp add: authByHeader_def sampleEnv_def req_def Get_def)
  have a2: "authByHeader sampleEnv sampleHandler (req ''GET'' [] []) = ((0, 0), [])"
    by (simp add: authByHeader_def sampleEnv_def req_def Get_def)
  have a3: "authByHeader sampleEnv sampleHandler (req ''GET'' [(''X-Token'', ''alice'')] []) =
      ((7, 1), [TsValidate ''alice''])"
    by (simp add: authByHeader_def sampleEnv_def sampleHandler_def sampleStore_def req_def Get_def)
  have an: "AnonymousId sampleEnv = 1"
    by (simp add: sampleEnv_def)
  have r1: "requireAuth deleteBinding" "\<not> allowAnonymous deleteBinding"
    by (simp_all add: deleteBinding_def)
  have r2: "requireAuth getBinding" "allowAnonymous getBinding"
    by (simp_all add: getBinding_def)
  show ?thesis
    using ServeHTTP_requireAuth [OF k1 b1 r1(1) d1 a1] r1(2)
      ServeHTTP_requireAuth [OF k2 b2 r2(1) d2 a2] r2(2)
      ServeHTTP_requireAuth [OF k2 b2 r2(1) d2 a3]
    by (auto simp: an after_Nil UserIdFieldName_def)
qed

lemma bindAuth_admin_slot:
  assumes "requireAuth f"
  shows "bindAuth env h f r input k =
         bindAuth env h f r input
           (\<lambda>input'. if slot AdminUserIdFieldName input' = slot AdminUserIdFieldName input
                     then k input' else Panicked [])"
proof -
  have ne: "AdminUserIdFieldName \<noteq> UserIdFieldName"
    by (simp add: slot_names)
  have keep: "(case setSlot UserIdFieldName v input of None \<Rightarrow> Panicked [] | Some input' \<Rightarrow> k input') =
      (case setSlot UserIdFieldName v input of None \<Rightarrow> Panicked []
       | Some input' \<Rightarrow> if slot AdminUserIdFieldName input' = slot AdminUserIdFieldName input
                        then k input' else Panicked [])" for v
  proof (cases input)
    case NilDummy
    then show ?thesis by simp
  next
    case (Inst i)
    show ?thesis
    proof (cases "setField UserIdFieldName v i")
      case None
      then show ?thesis using Inst by simp
    next
      case (Some i')
      from setField_other [OF Some ne] show ?thesis using Inst Some by simp
    qed
  qed
  show ?thesis
    using assms by (simp add: bindAuth_def keep [symmetric] split: prod.splits)
qed

text \<open>
  C9. For a binding that requires authentication, the flag \<^verbatim>\<open>requireAdmin\<close> has no
  effect: the dispatcher does what it does for the same binding with the flag cleared,
  so the admin check is never made; and the authentication block hands on only inputs
  whose admin-id slot is as it found it.
\<close>

theorem ServeHTTP_auth_excludes_admin:
  assumes "funcs h (methodKey env r) = Some f"
      and "requireAuth f"
  shows "ServeHTTP env h r =
           ServeHTTP env (h\<lparr>funcs := (funcs h)(methodKey env r \<mapsto> f\<lparr>requireAdmin := False\<rparr>)\<rparr>) r
       \<and> (\<forall>input k. bindAuth env h f r input k =
             bindAuth env h f r input
               (\<lambda>input'. if slot AdminUserIdFieldName input' = slot AdminUserIdFieldName input
                         then k input' else Panicked []))"
proof -
  let ?f = "f\<lparr>requireAdmin := False\<rparr>"
  let ?h = "h\<lparr>funcs := (funcs h)(methodKey env r \<mapsto> ?f)\<rparr>"
  have auth: "authByHeader env ?h r = authByHeader env h r"
    by (simp add: authByHeader_def Let_def split: prod.splits)
  have ht: "htype ?h = htype h"
    by simp
  have flags: "funcValue ?f = funcValue f" "hasResId ?f = hasResId f" "hasContent ?f = hasContent f"
    "contentType ?f = contentType f" "hasRequest ?f = hasRequest f" "hasConfVer ?f = hasConfVer f"
    by simp_all
  have inv: "invoke env ?h ?f = invoke env h f"
    unfolding invoke_def renderReturns_def ht flags ..
  have rest: "bindRest env ?h ?f r = bindRest env h f r"
    unfolding bindRest_def bindResId_def bindContent_def bindRequest_def bindConfVer_def inv flags ..
  have ba: "bindAuth env ?h ?f r input k = bindAuth env h f r input k" for input k
    using assms(2) by (simp add: bindAuth_def auth)
  have "serve env ?h ?f r = serve env h f r"
    by (simp add: serve_def bindInput_def ba rest)
  then have one: "ServeHTTP env h r = ServeHTTP env ?h r"
    using assms(1) by (simp add: ServeHTTP_def)
  from one bindAuth_admin_slot [OF assms(2)] show ?thesis by blast
qed

theorem ServeHTTP_auth_excludes_admin_witness:
  "ServeHTTP sampleEnv sampleHandler (req ''POST'' [(''X-Token'', ''alice'')] []) =
     ServeHTTP sampleEnv
       (sampleHandler\<lparr>funcs := (funcs sampleHandler)(''POST'' \<mapsto> postBinding\<lparr>requireAdmin := False\<rparr>)\<rparr>)
       (req ''POST'' [(''X-Token'', ''alice'')] [])
   \<and> ServeHTTP sampleEnv sampleHandler (req ''POST'' [(''X-Token'', ''alice'')] []) =
       Finished [TsValidate ''alice'',
                 Call (Inst [(''UserId__'', VInt64 7), (''AdminUserId__'', VInt64 0)]),
                 RenderData (RData (JObj []))]"
proof -
  have key: "methodKey sampleEnv (req ''POST'' [(''X-Token'', ''alice'')] []) = ''POST''"
    by (simp add: methodKey_def apiVersionFromHeader_def sampleEnv_def req_def const_defs)
  have f: "funcs sampleHandler (methodKey sampleEnv (req ''POST'' [(''X-Token'', ''alice'')] [])) = Some postBinding"
    by (simp add: key sampleHandler_def)
  have a: "requireAuth postBinding"
    by (simp add: postBinding_def)
  have run: "ServeHTTP sampleEnv sampleHandler (req ''POST'' [(''X-Token'', ''alice'')] []) =
       Finished [TsValidate ''alice'',
                 Call (Inst [(''UserId__'', VInt64 7), (''AdminUserId__'', VInt64 0)]),
                 RenderData (RData (JObj []))]"
    by (simp add: stage_defs sampleEnv_def sampleHandler_def sampleStore_def postBinding_def
        adminInput_def postThings_def req_def const_defs)
  from ServeHTTP_auth_excludes_admin [OF f a] run show ?thesis
    by (simp add: key)
qed

text \<open>
  The same holds in the earlier variant.
\<close>

lemma ServeHTTP0_auth_excludes_admin:
  assumes "funcs h (Method r) = Some f"
      and "requireAuth f"
  shows "ServeHTTP0 env h r =
           ServeHTTP0 env (h\<lparr>funcs := (funcs h)(Method r \<mapsto> f\<lparr>requireAdmin := False\<rparr>)\<rparr>) r"
proof -
  let ?f = "f\<lparr>requireAdmin := False\<rparr>"
  let ?h = "h\<lparr>funcs := (funcs h)(Method r \<mapsto> ?f)\<rparr>"
  have auth: "authByHeader env ?h r = authByHeader env h r"
    by (simp add: authByHeader_def Let_def split: prod.splits)
  have flags: "funcValue ?f = funcValue f" "hasResId ?f = hasResId f" "hasContent ?f = hasContent f"
    "contentType ?f = contentType f"
    by simp_all
  have rest: "bindRest0 env ?f r = bindRest0 env f r"
    unfolding bindRest0_def bindResId_def bindContent_def invoke0_def flags ..
  have ba: "bindAuth env ?h ?f r input k = bindAuth env h f r input k" for input k
    using assms(2) by (simp add: bindAuth_def auth)
  show ?thesis
    using assms(1) by (simp add: ServeHTTP0_def bindInput_def ba rest)
qed

section \<open>What is done with the result\<close>

text \<open>
  C6. In document mode, when the last value the handler function returns is an
  \<^verbatim>\<open>ApiError\<close> with the Redirect code, the dispatcher redirects to the URL in the
  message of the error with status 302 and renders neither a template nor an error.
\<close>

theorem invoke_redirect:
  assumes "htype h = HandlerTypeHtml"
      and "funcValue f input = returns"
      and "length returns = 1 \<or> length returns = 2 \<or> length returns = 3"
      and "last returns = RErr (ApiErr aerr)"
      and "Code aerr = ECodeRedirect env"
  shows "invoke env h f input = Finished [Call input, Redirect (Msg aerr) 302]"
proof -
  from assms(3) have ne: "returns \<noteq> []" by auto
  then have "returns ! (length returns - 1) = RErr (ApiErr aerr)"
    using assms(4) by (simp add: last_conv_nth)
  then have "renderReturns env h returns = Finished [Redirect (Msg aerr) 302]"
    using assms(1,3,5) by (auto simp: renderReturns_def Let_def)
  then show ?thesis
    by (simp add: invoke_def assms(2))
qed

theorem invoke_redirect_witness:
  "invoke sampleEnv htmlHandler htmlBinding NilDummy = Finished [Call NilDummy, Redirect ''/login'' 302]"
  using invoke_redirect [of htmlHandler htmlBinding NilDummy "htmlThings NilDummy"
      "NewApiErr 30200 ''/login''" sampleEnv]
  by (simp add: sample_defs const_defs)

text \<open>
  In both variants a last value that is an error but no \<^verbatim>\<open>ApiError\<close> leaves the
  response unwritten, whatever the handler function.
\<close>

lemma renderReturns_other_error:
  assumes "length returns = 1 \<or> length returns = 2 \<or> (length returns = 3 \<and> htype h = HandlerTypeHtml)"
      and "last returns = RErr (OtherErr e)"
  shows "renderReturns env h returns = Finished []"
proof -
  from assms(1) have "returns \<noteq> []" by auto
  then have "returns ! (length returns - 1) = RErr (OtherErr e)"
    using assms(2) by (simp add: last_conv_nth)
  then show ?thesis
    using assms(1) by (auto simp: renderReturns_def Let_def)
qed

lemma renderReturns0_other_error:
  assumes "length returns = 1 \<or> length returns = 2"
      and "last returns = RErr (OtherErr e)"
  shows "renderReturns0 returns = Finished []"
proof -
  from assms(1) have "returns \<noteq> []" by auto
  then have "returns ! (length returns - 1) = RErr (OtherErr e)"
    using assms(2) by (simp add: last_conv_nth)
  then show ?thesis
    using assms(1) by (auto simp: renderReturns0_def Let_def)
qed

text \<open>
  C1. Evaluation of the dispatcher on a handler function that returns an error which
  is no \<^verbatim>\<open>ApiError\<close>: after the call nothing is rendered, in either variant of
  \<^verbatim>\<open>ServeHTTP\<close>. The Internal error is built but the call of \<^verbatim>\<open>renderError\<close> is in
  the other branch.
\<close>

theorem ServeHTTP_other_error:
  "ServeHTTP sampleEnv sampleHandler (req ''PUT'' [] []) = Finished [Call NilDummy]
   \<and> \<not> list_ex is_response (trace (ServeHTTP sampleEnv sampleHandler (req ''PUT'' [] [])))
   \<and> ServeHTTP0 sampleEnv sampleHandler (req ''PUT'' [] []) = Finished [Call NilDummy]
   \<and> \<not> list_ex is_response (trace (ServeHTTP0 sampleEnv sampleHandler (req ''PUT'' [] [])))"
  by (simp add: ServeHTTP_def serve_def ServeHTTP0_def bindRest0_def invoke0_def renderReturns0_def
      bindInput_def bindAuth_def bindRest_def bindResId_def
      bindContent_def bindRequest_def bindConfVer_def invoke_def renderReturns_def methodKey_def
      apiVersionFromHeader_def sampleEnv_def sampleHandler_def putBinding_def putThings_def req_def const_defs)

section \<open>The error on the wire\<close>

text \<open>
  C7. \<^verbatim>\<open>HttpError\<close> on a fresh response writes status 200 whatever the code of the
  error, and the one JSON document of the body is the object with the code under
  \<^verbatim>\<open>errcode\<close> and the message under \<^verbatim>\<open>msg\<close>.
\<close>

theorem HttpError_wire:
  "status (HttpError e newResponseWriter) = Some 200
   \<and> documents (body (HttpError e newResponseWriter)) =
       [JObj [(''errcode'', JNum (Code e)), (''msg'', JStr (Msg e))]]"
  by (simp add: HttpError_def http_Error_def Encode_def Write_def WriteHeader_def Marshal_def
      newResponseWriter_def Let_def)

section \<open>Registration\<close>

text \<open>
  What the registration does for every handler set: the keys it registers are the
  cumulative keys that resolve, verb by verb, and every binding it registers was made by
  \<^verbatim>\<open>newHttpFunc\<close> from a method of the handler set.
\<close>

lemma newHttpFunc_None: "newHttpFunc structVal k = Inr None \<Longrightarrow> \<not> resolves structVal k"
  by (auto simp: newHttpFunc_def resolves_def Let_def split: option.splits if_splits rtype.splits)

lemma newHttpFunc_Some: "newHttpFunc structVal k = Inr (Some f) \<Longrightarrow> resolves structVal k"
  by (auto simp: newHttpFunc_def resolves_def split: option.splits)

lemma versions_supports:
  "1 \<le> i \<Longrightarrow> versions env structVal i (m, fm, sp) = Inr (m', fm', sp') \<Longrightarrow>
   sp' = sp @ filter (resolves structVal)
                  (map (\<lambda>j. m @ concat (map (FromInt env) [max 2 i..j])) [i..maxVersion])"
proof (induction env structVal i "(m, fm, sp)" arbitrary: m fm sp rule: versions.induct)
  case (1 env structVal i m fm sp)
  show ?case
  proof (cases "i \<le> maxVersion")
    case False
    then show ?thesis using "1.prems" by (simp add: versions.simps [of env structVal i])
  next
    case True
    define m1 where "m1 = (if i > 1 then m @ FromInt env i else m)"
    have list: "[i..maxVersion] = i # [i + 1..maxVersion]"
      using True by (simp add: upto_rec1)
    have here: "m @ concat (map (FromInt env) [max 2 i..i]) = m1"
      using "1.prems"(1) by (auto simp: m1_def upto_rec1 [of i i])
    have later: "m @ concat (map (FromInt env) [max 2 i..j]) =
        m1 @ concat (map (FromInt env) [max 2 (i + 1)..j])" if "i + 1 \<le> j" for j
    proof (cases "i > 1")
      case True
      then have "[max 2 i..j] = i # [max 2 (i + 1)..j]"
        using that by (simp add: upto_rec1 [of i j] max_def)
      then show ?thesis using True by (simp add: m1_def)
    next
      case False
      with "1.prems"(1) have "i = 1" by simp
      then show ?thesis by (simp add: m1_def)
    qed
    have tail: "map (\<lambda>j. m @ concat (map (FromInt env) [max 2 i..j])) [i + 1..maxVersion] =
        map (\<lambda>j. m1 @ concat (map (FromInt env) [max 2 (i + 1)..j])) [i + 1..maxVersion]"
      by (rule map_cong [OF refl]) (simp add: later)
    show ?thesis
    proof (cases "newHttpFunc structVal m1")
      case (Inl err)
      then show ?thesis using "1.prems"(2) True by (simp add: versions.simps [of env structVal i] m1_def Let_def)
    next
      case (Inr found)
      show ?thesis
      proof (cases found)
        case None
        have run: "versions env structVal (i + 1) (m1, fm, sp) = Inr (m', fm', sp')"
          using "1.prems"(2) True Inr None by (simp add: versions.simps [of env structVal i] m1_def Let_def)
        have "sp' = sp @ filter (resolves structVal)
            (map (\<lambda>j. m1 @ concat (map (FromInt env) [max 2 (i + 1)..j])) [i + 1..maxVersion])"
          using "1.hyps"(1) [OF True m1_def _ _ _ run] Inr None "1.prems"(1)
          by simp
        then show ?thesis
          using newHttpFunc_None [of structVal m1] Inr None
          by (simp add: list here tail)
      next
        case (Some f)
        have run: "versions env structVal (i + 1) (m1, fm(m1 \<mapsto> f), sp @ [m1]) = Inr (m', fm', sp')"
          using "1.prems"(2) True Inr Some by (simp add: versions.simps [of env structVal i] m1_def Let_def)
        have "sp' = (sp @ [m1]) @ filter (resolves structVal)
            (map (\<lambda>j. m1 @ concat (map (FromInt env) [max 2 (i + 1)..j])) [i + 1..maxVersion])"
          using "1.hyps"(2) [OF True m1_def _ _ _ run] Inr Some "1.prems"(1)
          by simp
        then show ?thesis
          using newHttpFunc_Some [of structVal m1 f] Inr Some
          by (simp add: list here tail)
      qed
    qed
  qed
qed


lemma methods_loop_supports:
  "methods_loop env structVal ms (fm, sp) = Inr (fm', sp') \<Longrightarrow>
   sp' = sp @ concat (map (\<lambda>m. filter (resolves structVal)
                                (map (cumulativeKey env m) [1..maxVersion])) ms)"
proof (induction ms arbitrary: fm sp)
  case Nil
  then show ?case by simp
next
  case (Cons m ms)
  from Cons.prems obtain m1 fm1 sp1 where
    v: "versions env structVal 1 (m, fm, sp) = Inr (m1, fm1, sp1)" and
    l: "methods_loop env structVal ms (fm1, sp1) = Inr (fm', sp')"
    by (auto split: sum.splits)
  have "sp1 = sp @ filter (resolves structVal) (map (cumulativeKey env m) [1..maxVersion])"
    using versions_supports [OF _ v] unfolding cumulativeKey_def by simp
  with Cons.IH [OF l] show ?case by simp
qed

lemma newHandler_supports:
  assumes "newHandler env structVal HandlerTypeJson store = Inr h"
  shows "supports h =
         concat (map (\<lambda>m. filter (resolves structVal) (map (cumulativeKey env m) [1..maxVersion]))
                     [''GET'', ''POST'', ''PUT'', ''DELETE''])"
proof -
  from assms obtain fm sp where
    l: "methods_loop env structVal [''GET'', ''POST'', ''PUT'', ''DELETE''] (Map.empty, []) = Inr (fm, sp)"
    and s: "supports h = sp"
    by (auto simp: newHandler_def Let_def split: option.splits if_splits sum.splits)
  from methods_loop_supports [OF l] s show ?thesis by simp
qed

lemma versions_madeFrom:
  "versions env structVal i (m, fm, sp) = Inr (m', fm', sp') \<Longrightarrow> madeFrom structVal fm \<Longrightarrow>
   madeFrom structVal fm'"
proof (induction env structVal i "(m, fm, sp)" arbitrary: m fm sp rule: versions.induct)
  case (1 env structVal i m fm sp)
  show ?case
  proof (cases "i \<le> maxVersion")
    case False
    then show ?thesis using "1.prems" by (simp add: versions.simps [of env structVal i])
  next
    case True
    define m1 where "m1 = (if i > 1 then m @ FromInt env i else m)"
    show ?thesis
    proof (cases "newHttpFunc structVal m1")
      case (Inl err)
      then show ?thesis using "1.prems"(1) True by (simp add: versions.simps [of env structVal i] m1_def Let_def)
    next
      case (Inr found)
      show ?thesis
      proof (cases found)
        case None
        have run: "versions env structVal (i + 1) (m1, fm, sp) = Inr (m', fm', sp')"
          using "1.prems"(1) True Inr None by (simp add: versions.simps [of env structVal i] m1_def Let_def)
        show ?thesis
          using "1.hyps"(1) [OF True m1_def _ _ run "1.prems"(2)] Inr None
          by simp
      next
        case (Some f)
        have run: "versions env structVal (i + 1) (m1, fm(m1 \<mapsto> f), sp @ [m1]) = Inr (m', fm', sp')"
          using "1.prems"(1) True Inr Some by (simp add: versions.simps [of env structVal i] m1_def Let_def)
        have "madeFrom structVal (fm(m1 \<mapsto> f))"
          using "1.prems"(2) Inr Some by (auto simp: madeFrom_def)
        then show ?thesis
          using "1.hyps"(2) [OF True m1_def _ _ run] Inr Some
          by simp
      qed
    qed
  qed
qed

lemma methods_loop_madeFrom:
  "methods_loop env structVal ms (fm, sp) = Inr (fm', sp') \<Longrightarrow> madeFrom structVal fm \<Longrightarrow>
   madeFrom structVal fm'"
proof (induction ms arbitrary: fm sp)
  case Nil
  then show ?case by simp
next
  case (Cons m ms)
  from Cons.prems(1) obtain m1 fm1 sp1 where
    v: "versions env structVal 1 (m, fm, sp) = Inr (m1, fm1, sp1)" and
    l: "methods_loop env structVal ms (fm1, sp1) = Inr (fm', sp')"
    by (auto split: sum.splits)
  from Cons.IH [OF l versions_madeFrom [OF v Cons.prems(2)]] show ?case .
qed

lemma newHandler_madeFrom:
  assumes "newHandler env structVal htype' store = Inr h"
  shows "madeFrom structVal (funcs h)"
proof (cases "htype' = HandlerTypeJson")
  case True
  with assms obtain sp where
    "methods_loop env structVal [''GET'', ''POST'', ''PUT'', ''DELETE''] (Map.empty, []) = Inr (funcs h, sp)"
    by (auto simp: newHandler_def Let_def split: option.splits if_splits sum.splits)
  from methods_loop_madeFrom [OF this] show ?thesis
    by (simp add: madeFrom_def)
next
  case False
  with assms obtain f where "newHttpFunc structVal ''HTML'' = Inr (Some f)" "funcs h = [''GET'' \<mapsto> f]"
    by (auto simp: newHandler_def Let_def split: option.splits if_splits sum.splits)
  then show ?thesis
    by (auto simp: madeFrom_def)
qed

text \<open>The keys of the registered bindings are the supported keys.\<close>

lemma versions_dom:
  "versions env structVal i (m, fm, sp) = Inr (m', fm', sp') \<Longrightarrow> dom fm = set sp \<Longrightarrow>
   dom fm' = set sp'"
proof (induction env structVal i "(m, fm, sp)" arbitrary: m fm sp rule: versions.induct)
  case (1 env structVal i m fm sp)
  show ?case
  proof (cases "i \<le> maxVersion")
    case False
    then show ?thesis using "1.prems" by (simp add: versions.simps [of env structVal i])
  next
    case True
    define m1 where "m1 = (if i > 1 then m @ FromInt env i else m)"
    show ?thesis
    proof (cases "newHttpFunc structVal m1")
      case (Inl err)
      then show ?thesis using "1.prems"(1) True
        by (simp add: versions.simps [of env structVal i] m1_def Let_def)
    next
      case (Inr found)
      show ?thesis
      proof (cases found)
        case None
        have run: "versions env structVal (i + 1) (m1, fm, sp) = Inr (m', fm', sp')"
          using "1.prems"(1) True Inr None
          by (simp add: versions.simps [of env structVal i] m1_def Let_def)
        show ?thesis
          using "1.hyps"(1) [OF True m1_def _ _ run "1.prems"(2)] Inr None
          by simp
      next
        case (Some f)
        have run: "versions env structVal (i + 1) (m1, fm(m1 \<mapsto> f), sp @ [m1]) = Inr (m', fm', sp')"
          using "1.prems"(1) True Inr Some
          by (simp add: versions.simps [of env structVal i] m1_def Let_def)
        have "dom (fm(m1 \<mapsto> f)) = set (sp @ [m1])"
          using "1.prems"(2) by simp
        then show ?thesis
          using "1.hyps"(2) [OF True m1_def _ _ run] Inr Some
          by simp
      qed
    qed
  qed
qed

lemma methods_loop_dom:
  "methods_loop env structVal ms (fm, sp) = Inr (fm', sp') \<Longrightarrow> dom fm = set sp \<Longrightarrow>
   dom fm' = set sp'"
proof (induction ms arbitrary: fm sp)
  case Nil
  then show ?case by simp
next
  case (Cons m ms)
  from Cons.prems(1) obtain m1 fm1 sp1 where
    v: "versions env structVal 1 (m, fm, sp) = Inr (m1, fm1, sp1)" and
    l: "methods_loop env structVal ms (fm1, sp1) = Inr (fm', sp')"
    by (auto split: sum.splits)
  from Cons.IH [OF l versions_dom [OF v Cons.prems(2)]] show ?case .
qed

lemma newHandler_dom:
  assumes "newHandler env structVal HandlerTypeJson store = Inr h"
  shows "dom (funcs h) = set (supports h)"
proof -
  from assms obtain fm sp where
    l: "methods_loop env structVal [''GET'', ''POST'', ''PUT'', ''DELETE''] (Map.empty, []) = Inr (fm, sp)"
    and s: "supports h = sp" "funcs h = fm"
    by (auto simp: newHandler_def Let_def split: option.splits if_splits sum.splits)
  from methods_loop_dom [OF l] s show ?thesis by simp
qed

text \<open>
  C2. Evaluation of the registration on a handler set with the methods \<^verbatim>\<open>GET\<close>,
  \<^verbatim>\<open>GET3\<close> and \<^verbatim>\<open>GET23\<close>: the loop appends each version to the key of the version
  before, so it finds \<^verbatim>\<open>GET23\<close> at version 3 and never asks for \<^verbatim>\<open>GET3\<close>; a request
  for version 3 of \<^verbatim>\<open>GET\<close> is then answered "Bad API version".
\<close>

theorem newHandler_cumulative_key:
  "(case newHandler sampleEnv sampleSet HandlerTypeJson sampleStore of
      Inl p \<Rightarrow> False
    | Inr h \<Rightarrow>
        supports h = [''GET'', ''GET23'', ''POST'', ''PUT'', ''DELETE'']
        \<and> Option.is_none (funcs h ''GET3'')
        \<and> ServeHTTP sampleEnv h (req ''GET'' [(''X-Version'', ''3'')] []) =
            Finished [RenderError (NewApiErr ECodeNotFound ''Bad API version'')])"
  by code_simp

end
